theory Spec2Isabelle
  imports Main "HOL-Library.Word"
begin

section \<open>Python values and exceptions\<close>

text \<open>
  The two modules (\<^verbatim>\<open>checkpoint.py\<close> and \<^verbatim>\<open>dic_to_h5.py\<close>) move nested
  string-keyed dictionaries to and from HDF5, JSON and INI files. Exceptions are values:
  every function that can raise returns \<open>error + 'a\<close>, with \<open>Inl\<close> the exception.
\<close>

datatype error =
    ImportError
  | AttributeError string
  | TypeError
  | ValueError
  | RuntimeError
  | KeyError string
  | UnicodeEncodeError
  | UnicodeDecodeError
  | FileNotFoundError string
  | IOError string

text \<open>
  A numeric array is its element kind (the character \<^verbatim>\<open>dtype.kind\<close>: \<open>b\<close> boolean,
  \<open>i\<close> signed, \<open>u\<close> unsigned, \<open>f\<close> floating, \<open>S\<close> byte strings, \<open>U\<close> native
  strings, \<open>O\<close> objects), its shape (\<open>[]\<close> is the zero-dimensional shape \<^verbatim>\<open>()\<close>) and its
  elements in row order, each of that kind. A Python float is its 64-bit pattern; no
  arithmetic is done on it. \<open>SCast k x\<close> is the element \<open>x\<close> converted to the kind \<open>k\<close>
  where the digits of the result are not spelled out (an integer as a float, a float as
  text).
\<close>

datatype scalar =
    SBool bool
  | SInt int
  | SFloat "64 word"
  | SStr string
  | SBytes string
  | SObj
  | SCast char scalar

record ndarray =
  kind :: char
  shape :: "nat list"
  items :: "scalar list"

datatype device = CPU | CUDA

record tensor =
  device :: device
  requires_grad :: bool
  data :: ndarray

text \<open>
  The values a dict tree can hold. A \<^verbatim>\<open>dict\<close> is the list of its entries in iteration
  order; \<open>NpBytes\<close> is a \<^verbatim>\<open>numpy.string_\<close> scalar.
\<close>

datatype pyval =
    PyNone
  | PyBool bool
  | PyInt int
  | PyFloat "64 word"
  | PyStr string
  | PyList "pyval list"
  | NpBytes string
  | NdArray ndarray
  | Tensor tensor
  | PyDict "(string \<times> pyval) list"

type_synonym treedict = "(string \<times> pyval) list"

subsection \<open>Strings\<close>

text \<open>
  A string is the list of its code points, which are below 256. \<^verbatim>\<open>str.lower()\<close> changes
  the upper-case letters among them, \<open>A\<close> to \<open>Z\<close> and the accented ones from 192 to 222
  (215, the multiplication sign, is no letter): the lower-case letter is 32 further on,
  which sets one bit.
\<close>

fun lower_char :: "char \<Rightarrow> char" where
  "lower_char (Char b0 b1 b2 b3 b4 b5 b6 b7) =
     (let n = (of_char (Char b0 b1 b2 b3 b4 b5 b6 b7) :: nat)
      in if (65 \<le> n \<and> n \<le> 90) \<or> (192 \<le> n \<and> n \<le> 222 \<and> n \<noteq> 215)
         then Char b0 b1 b2 b3 b4 True b6 b7
         else Char b0 b1 b2 b3 b4 b5 b6 b7)"

definition lower :: "string \<Rightarrow> string" where
  "lower s = map lower_char s"

definition is_ascii :: "string \<Rightarrow> bool" where
  "is_ascii s = list_all (\<lambda>c. (of_char c :: nat) < 128) s"

definition endswith :: "string \<Rightarrow> string \<Rightarrow> bool" where
  "endswith s suffix = (length suffix \<le> length s \<and> drop (length s - length suffix) s = suffix)"

text \<open>The decimal numeral of an integer, as \<^verbatim>\<open>str\<close> prints it.\<close>

function dec_nat :: "nat \<Rightarrow> string" where
  "dec_nat n =
     (if n < 10 then [''0123456789'' ! n]
      else dec_nat (n div 10) @ [''0123456789'' ! (n mod 10)])"
  by pat_completeness auto
termination
  by (relation "measure id") auto

declare dec_nat.simps [simp del]

definition dec_int :: "int \<Rightarrow> string" where
  "dec_int i = (if i < 0 then CHR ''-'' # dec_nat (nat (- i)) else dec_nat (nat i))"

text \<open>Python's \<^verbatim>\<open>sub in s\<close> on strings.\<close>

fun str_contains :: "string \<Rightarrow> string \<Rightarrow> bool" where
  "str_contains sub [] = (sub = [])"
| "str_contains sub (c # cs) = (take (length sub) (c # cs) = sub \<or> str_contains sub cs)"

subsection \<open>The array library\<close>

text \<open>
  \<^verbatim>\<open>numpy.string_(s)\<close> on a native string encodes it as ASCII and fails on any other
  character.
\<close>

definition np_string :: "string \<Rightarrow> error + pyval" where
  "np_string s = (if is_ascii s then Inr (NpBytes s) else Inl UnicodeEncodeError)"

text \<open>
  The kind \<^verbatim>\<open>numpy.array\<close> finds for a Python integer: a signed 64-bit integer when it
  fits, an unsigned one when only that fits, an object otherwise.
\<close>

definition int_kind :: "int \<Rightarrow> char" where
  "int_kind n =
     (if - (2 ^ 63) \<le> n \<and> n < 2 ^ 63 then CHR ''i''
      else if 0 \<le> n \<and> n < 2 ^ 64 then CHR ''u''
      else CHR ''O'')"

text \<open>The common kind of two element kinds.\<close>

definition promote :: "char \<Rightarrow> char \<Rightarrow> char" where
  "promote a b =
     (if a = b then a
      else if a = CHR ''O'' \<or> b = CHR ''O'' then CHR ''O''
      else if a = CHR ''U'' \<or> b = CHR ''U'' then CHR ''U''
      else if a = CHR ''S'' \<or> b = CHR ''S'' then CHR ''S''
      else if a = CHR ''b'' then b
      else if b = CHR ''b'' then a
      else CHR ''f'')"

text \<open>
  \<^verbatim>\<open>tensor.cpu()\<close> and \<^verbatim>\<open>tensor.numpy()\<close>; any other value has neither attribute.
  \<^verbatim>\<open>numpy()\<close> refuses a tensor that is not in host memory or that requires a gradient.
\<close>

fun py_cpu :: "pyval \<Rightarrow> error + pyval" where
  "py_cpu (Tensor t) = Inr (Tensor (t\<lparr>device := CPU\<rparr>))"
| "py_cpu _ = Inl (AttributeError ''cpu'')"

definition tensor_numpy :: "tensor \<Rightarrow> error + ndarray" where
  "tensor_numpy t =
     (if device t \<noteq> CPU then Inl TypeError
      else if requires_grad t then Inl RuntimeError
      else Inr (data t))"

fun py_numpy :: "pyval \<Rightarrow> error + pyval" where
  "py_numpy (Tensor t) = (case tensor_numpy t of Inl e \<Rightarrow> Inl e | Inr a \<Rightarrow> Inr (NdArray a))"
| "py_numpy _ = Inl (AttributeError ''numpy'')"

text \<open>
  Converting one element to a kind. Every conversion numpy makes on the way up (booleans
  to integers, numbers to text, byte strings to native strings) and the cast of native
  strings down to byte strings is spelled out, but for the floats: text is ASCII, so a
  native string with another character cannot become a byte string, nor such a byte string
  a native string.
\<close>

fun convert :: "char \<Rightarrow> scalar \<Rightarrow> error + scalar" where
  "convert k (SBool b) =
     (if k = CHR ''b'' \<or> k = CHR ''O'' then Inr (SBool b)
      else if k = CHR ''i'' \<or> k = CHR ''u'' then Inr (SInt (if b then 1 else 0))
      else if k = CHR ''S'' then Inr (SBytes (if b then ''True'' else ''False''))
      else if k = CHR ''U'' then Inr (SStr (if b then ''True'' else ''False''))
      else Inr (SCast k (SBool b)))"
| "convert k (SInt n) =
     (if k = CHR ''i'' \<or> k = CHR ''u'' \<or> k = CHR ''O'' then Inr (SInt n)
      else if k = CHR ''S'' then Inr (SBytes (dec_int n))
      else if k = CHR ''U'' then Inr (SStr (dec_int n))
      else Inr (SCast k (SInt n)))"
| "convert k (SFloat x) =
     (if k = CHR ''f'' \<or> k = CHR ''O'' then Inr (SFloat x) else Inr (SCast k (SFloat x)))"
| "convert k (SStr s) =
     (if k = CHR ''U'' \<or> k = CHR ''O'' then Inr (SStr s)
      else if k = CHR ''S'' then (if is_ascii s then Inr (SBytes s) else Inl UnicodeEncodeError)
      else Inr (SCast k (SStr s)))"
| "convert k (SBytes s) =
     (if k = CHR ''S'' \<or> k = CHR ''O'' then Inr (SBytes s)
      else if k = CHR ''U'' then (if is_ascii s then Inr (SStr s) else Inl UnicodeDecodeError)
      else Inr (SCast k (SBytes s)))"
| "convert k SObj = (if k = CHR ''O'' then Inr SObj else Inr (SCast k SObj))"
| "convert k (SCast j x) = (if k = j then Inr (SCast j x) else Inr (SCast k (SCast j x)))"

fun collect :: "(error + 'a) list \<Rightarrow> error + 'a list" where
  "collect [] = Inr []"
| "collect (Inl e # _) = Inl e"
| "collect (Inr a # rs) = (case collect rs of Inl e \<Rightarrow> Inl e | Inr as \<Rightarrow> Inr (a # as))"

text \<open>\<^verbatim>\<open>a.astype(k)\<close>: every element converted, the first failure raised.\<close>

definition astype :: "char \<Rightarrow> ndarray \<Rightarrow> error + ndarray" where
  "astype k a =
     (case collect (map (convert k) (items a)) of
        Inl e \<Rightarrow> Inl e
      | Inr xs \<Rightarrow> Inr (a\<lparr>kind := k, items := xs\<rparr>))"

text \<open>
  \<^verbatim>\<open>numpy.array(x)\<close>. A scalar gives a zero-dimensional array. For a list, numpy first
  finds the shape (one more dimension than the elements, which must agree in shape) and
  the common kind of all the values in it, which is \<open>gather\<close>; then it converts every value
  to that kind.
\<close>

definition stack :: "ndarray list \<Rightarrow> error + ndarray" where
  "stack as =
     (case as of
        [] \<Rightarrow> Inr \<lparr>kind = CHR ''f'', shape = [0], items = []\<rparr>
      | a # rest \<Rightarrow>
          if list_all (\<lambda>b. shape b = shape a) rest
          then Inr \<lparr>kind = foldl promote (kind a) (map kind rest),
                    shape = length as # shape a,
                    items = concat (map items as)\<rparr>
          else Inl ValueError)"

fun gather :: "pyval \<Rightarrow> error + ndarray" where
  "gather PyNone = Inr \<lparr>kind = CHR ''O'', shape = [], items = [SObj]\<rparr>"
| "gather (PyBool b) = Inr \<lparr>kind = CHR ''b'', shape = [], items = [SBool b]\<rparr>"
| "gather (PyInt n) = Inr \<lparr>kind = int_kind n, shape = [], items = [SInt n]\<rparr>"
| "gather (PyFloat x) = Inr \<lparr>kind = CHR ''f'', shape = [], items = [SFloat x]\<rparr>"
| "gather (PyStr s) = Inr \<lparr>kind = CHR ''U'', shape = [], items = [SStr s]\<rparr>"
| "gather (PyList xs) =
     (case collect (map gather xs) of Inl e \<Rightarrow> Inl e | Inr as \<Rightarrow> stack as)"
| "gather (NpBytes s) = Inr \<lparr>kind = CHR ''S'', shape = [], items = [SBytes s]\<rparr>"
| "gather (NdArray a) = Inr a"
| "gather (Tensor t) = tensor_numpy t"
| "gather (PyDict d) = Inr \<lparr>kind = CHR ''O'', shape = [], items = [SObj]\<rparr>"

fun np_array :: "pyval \<Rightarrow> error + ndarray" where
  "np_array (PyList xs) =
     (case gather (PyList xs) of Inl e \<Rightarrow> Inl e | Inr a \<Rightarrow> astype (kind a) a)"
| "np_array x = gather x"

text \<open>
  \<^verbatim>\<open>numpy.asarray(a, dtype=numpy.string_)\<close>: every element becomes a fixed-width byte
  string.
\<close>

definition asarray_string :: "ndarray \<Rightarrow> error + ndarray" where
  "asarray_string a = astype (CHR ''S'') a"

text \<open>\<^verbatim>\<open>ds.shape\<close> of an encoded leaf: a \<^verbatim>\<open>numpy.string_\<close> scalar has shape \<^verbatim>\<open>()\<close>.\<close>

fun shape_of :: "pyval \<Rightarrow> nat list" where
  "shape_of (NdArray a) = shape a"
| "shape_of _ = []"

fun isinstance_int :: "pyval \<Rightarrow> bool" where
  "isinstance_int (PyInt _) = True"
| "isinstance_int (PyBool _) = True"
| "isinstance_int _ = False"

fun isinstance_ndarray_or_string :: "pyval \<Rightarrow> bool" where
  "isinstance_ndarray_or_string (NdArray _) = True"
| "isinstance_ndarray_or_string (NpBytes _) = True"
| "isinstance_ndarray_or_string _ = False"

section \<open>The leaf encoders\<close>

text \<open>
  \<^verbatim>\<open>_prepare_hdf5_dataset\<close> of \<^verbatim>\<open>checkpoint.py\<close>, statement by statement: the string
  conversion, the tensor conversion of everything that is not an \<^verbatim>\<open>int\<close>, the array
  constructor for what is neither an array nor a byte-string scalar.
\<close>

definition prepare_hdf5_dataset :: "pyval \<Rightarrow> error + pyval" where
  "prepare_hdf5_dataset array_like =
     (case (case array_like of PyStr s \<Rightarrow> np_string s | _ \<Rightarrow> Inr array_like) of
        Inl e \<Rightarrow> Inl e
      | Inr a1 \<Rightarrow>
          (case (if \<not> isinstance_int a1
                 then (case py_cpu a1 of Inl e \<Rightarrow> Inl e | Inr c \<Rightarrow> py_numpy c)
                 else Inr a1) of
             Inl e \<Rightarrow> Inl e
           | Inr a2 \<Rightarrow>
               if \<not> isinstance_ndarray_or_string a2
               then (case np_array a2 of Inl e \<Rightarrow> Inl e | Inr arr \<Rightarrow> Inr (NdArray arr))
               else Inr a2))"

text \<open>
  \<^verbatim>\<open>_prepare_hdf5_dataset\<close> of \<^verbatim>\<open>dic_to_h5.py\<close>: no tensor step, and an array whose
  lower-cased kind is \<open>s\<close> or \<open>u\<close> is cast to byte strings.
\<close>

definition legacy_prepare_hdf5_dataset :: "pyval \<Rightarrow> error + pyval" where
  "legacy_prepare_hdf5_dataset array_like =
     (case (case array_like of PyStr s \<Rightarrow> np_string s | _ \<Rightarrow> Inr array_like) of
        Inl e \<Rightarrow> Inl e
      | Inr a1 \<Rightarrow>
          (case (if \<not> isinstance_ndarray_or_string a1
                 then (case np_array a1 of Inl e \<Rightarrow> Inl e | Inr arr \<Rightarrow> Inr (NdArray arr))
                 else Inr a1) of
             Inl e \<Rightarrow> Inl e
           | Inr array \<Rightarrow>
               (case array of
                  NdArray arr \<Rightarrow>
                    if lower [kind arr] \<in> set [''s'', ''u'']
                    then (case asarray_string arr of Inl e \<Rightarrow> Inl e | Inr b \<Rightarrow> Inr (NdArray b))
                    else Inr array
                | _ \<Rightarrow> Inr array)))"

section \<open>The container backend\<close>

text \<open>
  A container document is a tree of groups and datasets. A group keeps its children in the
  order the backend enumerates them, which is the order of their names; a dataset keeps the
  stored array and the creation options it was given. A path string addresses a node by
  its segments between \<open>/\<close>; an empty segment and the segment \<open>.\<close> stand for the group
  itself.
\<close>

type_synonym ds_args = "(string \<times> pyval) list"

datatype h5node =
    Group "(string \<times> h5node) list"
  | Dataset ndarray "ds_args option"

fun split_path_from :: "string \<Rightarrow> string \<Rightarrow> string list" where
  "split_path_from cur [] = (if cur = [] then [] else [cur])"
| "split_path_from cur (c # cs) =
     (if c = CHR ''/''
      then (if cur = [] then split_path_from [] cs else cur # split_path_from [] cs)
      else split_path_from (cur @ [c]) cs)"

definition split_path :: "string \<Rightarrow> string list" where
  "split_path p = filter (\<lambda>seg. seg \<noteq> ''.'') (split_path_from [] p)"

fun h5_get :: "h5node \<Rightarrow> string list \<Rightarrow> h5node option" where
  "h5_get n [] = Some n"
| "h5_get (Dataset a opts) (k # ks) = None"
| "h5_get (Group cs) (k # ks) = (case map_of cs k of None \<Rightarrow> None | Some c \<Rightarrow> h5_get c ks)"

text \<open>\<^verbatim>\<open>node[name]\<close>: the empty name and a name that leads nowhere are key errors.\<close>

definition h5_getitem :: "h5node \<Rightarrow> string \<Rightarrow> error + h5node" where
  "h5_getitem root name =
     (if name = [] then Inl (KeyError name)
      else (case h5_get root (split_path name) of
              None \<Rightarrow> Inl (KeyError name)
            | Some n \<Rightarrow> Inr n))"

text \<open>The order of names: by code point, a prefix first.\<close>

fun name_le :: "string \<Rightarrow> string \<Rightarrow> bool" where
  "name_le [] t = True"
| "name_le (c # s) [] = False"
| "name_le (c # s) (d # t) =
     ((of_char c :: nat) < of_char d \<or> (c = d \<and> name_le s t))"

fun insert_member :: "string \<Rightarrow> h5node \<Rightarrow> (string \<times> h5node) list \<Rightarrow> (string \<times> h5node) list" where
  "insert_member k c [] = [(k, c)]"
| "insert_member k c ((k', c') # cs) =
     (if name_le k k' then (k, c) # (k', c') # cs else (k', c') # insert_member k c cs)"

fun nest :: "string list \<Rightarrow> h5node \<Rightarrow> h5node" where
  "nest [] new = new"
| "nest (k # ks) new = Group [(k, nest ks new)]"

fun set_child :: "string \<Rightarrow> h5node \<Rightarrow> (string \<times> h5node) list \<Rightarrow> (string \<times> h5node) list" where
  "set_child k c [] = [(k, c)]"
| "set_child k c ((k', c') # cs) = (if k' = k then (k, c) # cs else (k', c') # set_child k c cs)"

text \<open>
  Creating a node: missing intermediate groups are created, a name that exists already is
  refused (a value error), and nothing can be created below a dataset (a type error).
\<close>

fun h5_create :: "string list \<Rightarrow> h5node \<Rightarrow> h5node \<Rightarrow> error + h5node" where
  "h5_create [] new root = Inl ValueError"
| "h5_create (k # ks) new (Dataset a opts) = Inl TypeError"
| "h5_create (k # ks) new (Group cs) =
     (case map_of cs k of
        None \<Rightarrow> Inr (Group (insert_member k (nest ks new) cs))
      | Some c \<Rightarrow>
          if ks = [] then Inl ValueError
          else (case h5_create ks new c of
                  Inl e \<Rightarrow> Inl e
                | Inr c' \<Rightarrow> Inr (Group (set_child k c' cs))))"

subsection \<open>Files and handles\<close>

datatype content = H5Doc h5node | TextDoc string

record handle =
  target :: string
  is_open :: bool
  readable :: bool
  writable :: bool

record world =
  disk :: "(string \<times> content) list"
  handles :: "handle list"
  logged :: "string list"

text \<open>
  What a function is handed as a file: a filename, a stream (with the attributes the code
  asks for, open for text or for binary input and output, on the handle \<open>fd\<close>), or an open
  container file.
\<close>

record fobj =
  has_read :: bool
  has_write :: bool
  name_attr :: "string option"
  binary :: bool
  fd :: nat

datatype ffile = Path string | Stream fobj | H5File nat

fun store :: "string \<Rightarrow> content \<Rightarrow> (string \<times> content) list \<Rightarrow> (string \<times> content) list" where
  "store p c [] = [(p, c)]"
| "store p c ((p', c') # fs) = (if p' = p then (p, c) # fs else (p', c') # store p c fs)"

definition new_handle :: "string \<Rightarrow> bool \<Rightarrow> bool \<Rightarrow> world \<Rightarrow> nat \<times> world" where
  "new_handle p rd wr w =
     (length (handles w),
      w\<lparr>handles := handles w @ [\<lparr>target = p, is_open = True, readable = rd, writable = wr\<rparr>]\<rparr>)"

definition close_handle :: "nat \<Rightarrow> world \<Rightarrow> world" where
  "close_handle h w =
     (if h < length (handles w)
      then w\<lparr>handles := (handles w)[h := (handles w ! h)\<lparr>is_open := False\<rparr>]\<rparr>
      else w)"

text \<open>
  \<^verbatim>\<open>h5py.File(name, mode)\<close>: \<open>r\<close> and \<open>r+\<close> need an existing container, \<open>w\<close> starts an
  empty one, \<open>w-\<close> and \<open>x\<close> refuse an existing file, \<open>a\<close> opens a container or creates one
  (also in a file with nothing in it). A binary stream stands for the file behind it; a
  text stream is no container.
\<close>

definition h5py_open :: "string \<Rightarrow> string \<Rightarrow> world \<Rightarrow> (error + nat) \<times> world" where
  "h5py_open p mode w =
     (let create = (\<lambda>u::unit.
            case new_handle p True True (w\<lparr>disk := store p (H5Doc (Group [])) (disk w)\<rparr>) of
              (h, w') \<Rightarrow> (Inr h, w'));
          reopen = (\<lambda>wr.
            case map_of (disk w) p of
              Some (H5Doc d) \<Rightarrow> (case new_handle p True wr w of (h, w') \<Rightarrow> (Inr h, w'))
            | _ \<Rightarrow> (Inl (IOError ''Unable to open file''), w))
      in if mode = ''r'' then reopen False
         else if mode = ''r+'' then reopen True
         else if mode = ''w'' then create ()
         else if mode = ''w-'' \<or> mode = ''x'' then
           (case map_of (disk w) p of
              None \<Rightarrow> create ()
            | Some c \<Rightarrow> (Inl (IOError ''Unable to create file''), w))
         else if mode = ''a'' then
           (case map_of (disk w) p of
              None \<Rightarrow> create ()
            | Some c \<Rightarrow> if c = TextDoc [] then create () else reopen True)
         else (Inl ValueError, w))"

definition h5py_File :: "ffile \<Rightarrow> string \<Rightarrow> world \<Rightarrow> (error + nat) \<times> world" where
  "h5py_File f mode w =
     (case f of
        Path p \<Rightarrow> h5py_open p mode w
      | Stream s \<Rightarrow>
          if binary s \<and> fd s < length (handles w) \<and> is_open (handles w ! fd s)
          then h5py_open (target (handles w ! fd s)) mode w
          else (Inl (IOError ''Unable to open file''), w)
      | H5File h \<Rightarrow> (Inl TypeError, w))"

text \<open>The document behind an open handle, and a change of it through a writable handle.\<close>

definition h5_root :: "nat \<Rightarrow> world \<Rightarrow> error + h5node" where
  "h5_root h w =
     (if h < length (handles w) \<and> is_open (handles w ! h)
      then (case map_of (disk w) (target (handles w ! h)) of
              Some (H5Doc d) \<Rightarrow> Inr d
            | _ \<Rightarrow> Inl ValueError)
      else Inl ValueError)"

definition h5_update :: "nat \<Rightarrow> (h5node \<Rightarrow> error + h5node) \<Rightarrow> world \<Rightarrow> (error + unit) \<times> world" where
  "h5_update h f w =
     (case h5_root h w of
        Inl e \<Rightarrow> (Inl e, w)
      | Inr d \<Rightarrow>
          if \<not> writable (handles w ! h) then (Inl ValueError, w)
          else (case f d of
                  Inl e \<Rightarrow> (Inl e, w)
                | Inr d' \<Rightarrow> (Inr (), w\<lparr>disk := store (target (handles w ! h)) (H5Doc d') (disk w)\<rparr>)))"

definition create_group :: "nat \<Rightarrow> string \<Rightarrow> world \<Rightarrow> (error + unit) \<times> world" where
  "create_group h name w = h5_update h (h5_create (split_path name) (Group [])) w"

text \<open>
  \<^verbatim>\<open>create_dataset(name, data=ds, **args)\<close>: the data is stored in array form; objects
  and native strings have no stored form.
\<close>

definition create_dataset :: "nat \<Rightarrow> string \<Rightarrow> pyval \<Rightarrow> ds_args option \<Rightarrow> world \<Rightarrow> (error + unit) \<times> world" where
  "create_dataset h name ds args w =
     (case np_array ds of
        Inl e \<Rightarrow> (Inl e, w)
      | Inr a \<Rightarrow>
          if kind a = CHR ''O'' \<or> kind a = CHR ''U'' then (Inl TypeError, w)
          else h5_update h (h5_create (split_path name) (Dataset a args)) w)"

section \<open>Writing a dict tree to a container\<close>

text \<open>
  \<^verbatim>\<open>save_checkpoint\<close> (\<^verbatim>\<open>checkpoint.py\<close>) and \<^verbatim>\<open>dicttoh5\<close> (\<^verbatim>\<open>dic_to_h5.py\<close>) are
  the same text but for the encoder each module's \<^verbatim>\<open>_prepare_hdf5_dataset\<close> names, so
  \<open>dict_to_container\<close> takes the encoder and each function is its instance. The first
  argument is the module's \<^verbatim>\<open>h5py_missing\<close> flag, and \<open>ImportError\<close> stands for the
  remembered \<^verbatim>\<open>h5py_import_error\<close>. \<open>write_items\<close> is the \<^verbatim>\<open>for key in treedict\<close> loop;
  a recursive call passes the open file and takes the default mode.
\<close>

definition tree_size :: "treedict \<Rightarrow> nat" where
  "tree_size d = size_list (size_prod (\<lambda>k. 0) size) d"

function
  dict_to_container :: "(pyval \<Rightarrow> error + pyval) \<Rightarrow> bool \<Rightarrow> treedict \<Rightarrow> ffile \<Rightarrow> string \<Rightarrow> string \<Rightarrow>
     bool \<Rightarrow> ds_args option \<Rightarrow> world \<Rightarrow> (error + unit) \<times> world"
and
  write_items :: "(pyval \<Rightarrow> error + pyval) \<Rightarrow> bool \<Rightarrow> treedict \<Rightarrow> nat \<Rightarrow> string \<Rightarrow>
     bool \<Rightarrow> ds_args option \<Rightarrow> world \<Rightarrow> (error + unit) \<times> world"
where
  "dict_to_container enc missing treedict h5file h5path mode overwrite_data create_dataset_args w =
     (if missing then (Inl ImportError, w)
      else
        (case (case h5file of H5File h \<Rightarrow> (Inr h, w) | _ \<Rightarrow> h5py_File h5file mode w) of
           (Inl e, w1) \<Rightarrow> (Inl e, w1)
         | (Inr h5f, w1) \<Rightarrow>
             (case write_items enc missing treedict h5f
                     (if \<not> endswith h5path ''/'' then h5path @ ''/'' else h5path)
                     overwrite_data create_dataset_args w1 of
                (Inl e, w2) \<Rightarrow> (Inl e, w2)
              | (Inr u, w2) \<Rightarrow>
                  (case h5file of
                     Path p \<Rightarrow> (Inr (), close_handle h5f w2)
                   | _ \<Rightarrow> (Inr (), w2)))))"
| "write_items enc missing [] h5f h5path overwrite_data create_dataset_args w = (Inr (), w)"
| "write_items enc missing ((key, v) # rest) h5f h5path overwrite_data create_dataset_args w =
     (case (case v of
              PyDict d \<Rightarrow>
                if d \<noteq> []
                then dict_to_container enc missing d (H5File h5f) (h5path @ key) ''w''
                       overwrite_data create_dataset_args w
                else create_group h5f (h5path @ key) w
            | PyNone \<Rightarrow> create_group h5f (h5path @ key) w
            | _ \<Rightarrow>
                (case enc v of
                   Inl e \<Rightarrow> (Inl e, w)
                 | Inr ds \<Rightarrow>
                     if shape_of ds = [] \<or> create_dataset_args = None
                     then create_dataset h5f (h5path @ key) ds None w
                     else create_dataset h5f (h5path @ key) ds create_dataset_args w)) of
        (Inl e, w1) \<Rightarrow> (Inl e, w1)
      | (Inr u, w1) \<Rightarrow>
          write_items enc missing rest h5f h5path overwrite_data create_dataset_args w1)"
  by pat_completeness auto
termination
  by (relation "measure (\<lambda>x. case x of
          Inl (enc, missing, treedict, rest) \<Rightarrow> 2 * tree_size treedict + 1
        | Inr (enc, missing, treedict, rest) \<Rightarrow> 2 * tree_size treedict)")
     (auto simp: tree_size_def)

definition save_checkpoint :: "bool \<Rightarrow> treedict \<Rightarrow> ffile \<Rightarrow> string \<Rightarrow> string \<Rightarrow> bool \<Rightarrow>
    ds_args option \<Rightarrow> world \<Rightarrow> (error + unit) \<times> world" where
  "save_checkpoint = dict_to_container prepare_hdf5_dataset"

definition dicttoh5 :: "bool \<Rightarrow> treedict \<Rightarrow> ffile \<Rightarrow> string \<Rightarrow> string \<Rightarrow> bool \<Rightarrow>
    ds_args option \<Rightarrow> world \<Rightarrow> (error + unit) \<times> world" where
  "dicttoh5 = dict_to_container legacy_prepare_hdf5_dataset"

section \<open>Reading a container into a dict tree\<close>

text \<open>\<^verbatim>\<open>_name_contains_string_in_list\<close>, the same in both modules.\<close>

fun name_contains_string_in_list :: "string \<Rightarrow> string list option \<Rightarrow> bool" where
  "name_contains_string_in_list name None = False"
| "name_contains_string_in_list name (Some []) = False"
| "name_contains_string_in_list name (Some (filter_str # strlist)) =
     (if str_contains filter_str name then True
      else name_contains_string_in_list name (Some strlist))"

text \<open>
  \<^verbatim>\<open>torch.from_numpy\<close> shares the array with a host tensor; it has no tensor type for
  byte strings, native strings or objects.
\<close>

definition torch_from_numpy :: "ndarray \<Rightarrow> error + pyval" where
  "torch_from_numpy a =
     (if kind a \<in> set [CHR ''b'', CHR ''i'', CHR ''u'', CHR ''f'']
      then Inr (Tensor \<lparr>device = CPU, requires_grad = False, data = a\<rparr>)
      else Inl TypeError)"

text \<open>\<^verbatim>\<open>ddict[key] = value\<close> on an ordered mapping.\<close>

fun dict_set :: "string \<Rightarrow> pyval \<Rightarrow> treedict \<Rightarrow> treedict" where
  "dict_set k v [] = [(k, v)]"
| "dict_set k v ((k', v') # d) = (if k' = k then (k, v) # d else (k', v') # dict_set k v d)"

text \<open>
  Modelled from the spec: \<^verbatim>\<open>is_group\<close>, \<^verbatim>\<open>is_file\<close> and the reading \<^verbatim>\<open>open\<close> of the
  \<^verbatim>\<open>utils\<close> module, which is not among the sources. The spec has them tell whether the
  addressed node is a group rather than a dataset, whether a handle is itself a root file
  handle, and open a container source for reading.
\<close>

fun is_group :: "h5node \<Rightarrow> bool" where
  "is_group (Group cs) = True"
| "is_group (Dataset a opts) = False"

fun is_file :: "ffile \<Rightarrow> bool" where
  "is_file (H5File h) = True"
| "is_file _ = False"

definition h5open :: "ffile \<Rightarrow> world \<Rightarrow> (error + nat) \<times> world" where
  "h5open f w = h5py_File f ''r'' w"

fun members :: "h5node \<Rightarrow> (string \<times> h5node) list" where
  "members (Group cs) = cs"
| "members (Dataset a opts) = []"

text \<open>\<^verbatim>\<open>node[...]\<close>, the whole stored array of a dataset.\<close>

fun read_all :: "h5node \<Rightarrow> error + ndarray" where
  "read_all (Dataset a opts) = Inr a"
| "read_all (Group cs) = Inl TypeError"

text \<open>
  The loop \<^verbatim>\<open>for key in h5f[path]\<close> of \<^verbatim>\<open>load_checkpoint\<close> over the children of a
  group, with the mapping built so far. The recursive call is made on the open file, where
  it neither opens nor closes anything and reads the child \<^verbatim>\<open>h5f[path + "/" + key]\<close>: it
  is the same loop over that child's children.
\<close>

definition node_size :: "(string \<times> h5node) list \<Rightarrow> nat" where
  "node_size cs = size_list (size_prod (\<lambda>k. 0) size) cs"

function read_items :: "string list option \<Rightarrow> (string \<times> h5node) list \<Rightarrow> treedict \<Rightarrow> error + treedict" where
  "read_items exclude_names [] ddict = Inr ddict"
| "read_items exclude_names ((key, n) # rest) ddict =
     (if name_contains_string_in_list key exclude_names
      then read_items exclude_names rest ddict
      else if is_group n
      then (case read_items exclude_names (members n) [] of
              Inl e \<Rightarrow> Inl e
            | Inr sub \<Rightarrow> read_items exclude_names rest (dict_set key (PyDict sub) ddict))
      else (case read_all n of
              Inl e \<Rightarrow> Inl e
            | Inr a \<Rightarrow>
                (case torch_from_numpy a of
                   Inl e \<Rightarrow> Inl e
                 | Inr t \<Rightarrow> read_items exclude_names rest (dict_set key t ddict))))"
  by pat_completeness auto
termination
proof (relation "measure (\<lambda>(ex, cs, ddict). node_size cs)")
  fix exclude_names :: "string list option" and key n and rest :: "(string \<times> h5node) list"
    and ddict :: treedict
  have "node_size (members n) < Suc (size n)"
    by (cases n) (simp_all add: node_size_def)
  then have "node_size (members n) < node_size ((key, n) # rest)"
    by (simp add: node_size_def)
  then show "((exclude_names, members n, []), (exclude_names, (key, n) # rest, ddict))
      \<in> measure (\<lambda>(ex, cs, ddict). node_size cs)"
    by simp
qed (simp_all add: node_size_def)

text \<open>
  \<^verbatim>\<open>load_checkpoint\<close>. Iterating a dataset instead of a group yields its rows, which are
  no names: only an array with no rows gives an empty mapping.
\<close>

definition load_checkpoint :: "bool \<Rightarrow> ffile \<Rightarrow> string \<Rightarrow> string list option \<Rightarrow> world \<Rightarrow>
    (error + treedict) \<times> world" where
  "load_checkpoint missing h5file path exclude_names w =
     (if missing then (Inl ImportError, w)
      else
        (case (case h5file of H5File h \<Rightarrow> (Inr h, w) | _ \<Rightarrow> h5open h5file w) of
           (Inl e, w1) \<Rightarrow> (Inl e, w1)
         | (Inr h5f, w1) \<Rightarrow>
             (case (case h5_root h5f w1 of
                      Inl e \<Rightarrow> Inl e
                    | Inr root \<Rightarrow>
                        (case h5_getitem root path of
                           Inl e \<Rightarrow> Inl e
                         | Inr n \<Rightarrow>
                             if is_group n then read_items exclude_names (members n) []
                             else (case read_all n of
                                     Inl e \<Rightarrow> Inl e
                                   | Inr a \<Rightarrow>
                                       if shape a \<noteq> [] \<and> hd (shape a) = 0 then Inr []
                                       else Inl TypeError))) of
                Inl e \<Rightarrow> (Inl e, w1)
              | Inr ddict \<Rightarrow>
                  if \<not> is_file h5file then (Inr ddict, close_handle h5f w1)
                  else (Inr ddict, w1))))"

section \<open>Text files, JSON and INI\<close>

text \<open>
  The built-in \<^verbatim>\<open>open(name, mode)\<close> on text files, for the modes \<open>r\<close>, \<open>r+\<close>, \<open>w\<close>,
  \<open>w+\<close>, \<open>a\<close>, \<open>a+\<close> and \<open>x\<close> (the model refuses any other mode string). Only a filename
  can be opened, and the stream it gives is a text stream. Writing a string to a stream
  needs its \<^verbatim>\<open>write\<close> attribute; a binary stream takes no string and raises
  \<open>TypeError\<close>.
\<close>

definition text_handle :: "string \<Rightarrow> bool \<Rightarrow> bool \<Rightarrow> world \<Rightarrow> (error + fobj) \<times> world" where
  "text_handle p rd wr w =
     (case new_handle p rd wr w of
        (h, w') \<Rightarrow>
          (Inr \<lparr>has_read = True, has_write = True, name_attr = Some p, binary = False, fd = h\<rparr>,
           w'))"

definition py_open :: "ffile \<Rightarrow> string \<Rightarrow> world \<Rightarrow> (error + fobj) \<times> world" where
  "py_open f mode w =
     (case f of
        Path p \<Rightarrow>
          (let present = (map_of (disk w) p \<noteq> None);
               fresh = w\<lparr>disk := store p (TextDoc []) (disk w)\<rparr>
           in if mode = ''r'' then
                (if present then text_handle p True False w else (Inl (FileNotFoundError p), w))
              else if mode = ''r+'' then
                (if present then text_handle p True True w else (Inl (FileNotFoundError p), w))
              else if mode = ''w'' then text_handle p False True fresh
              else if mode = ''w+'' then text_handle p True True fresh
              else if mode = ''a'' \<or> mode = ''a+'' then
                text_handle p (mode = ''a+'') True (if present then w else fresh)
              else if mode = ''x'' then
                (if present then (Inl (IOError ''File exists''), w)
                 else text_handle p False True fresh)
              else (Inl ValueError, w))
      | _ \<Rightarrow> (Inl TypeError, w))"

definition stream_write :: "fobj \<Rightarrow> string \<Rightarrow> world \<Rightarrow> (error + unit) \<times> world" where
  "stream_write f txt w =
     (if \<not> has_write f then (Inl (AttributeError ''write''), w)
      else if binary f then (Inl TypeError, w)
      else if \<not> (fd f < length (handles w) \<and> is_open (handles w ! fd f)) then (Inl ValueError, w)
      else if \<not> writable (handles w ! fd f) then (Inl (IOError ''not writable''), w)
      else
        (let p = target (handles w ! fd f);
             old = (case map_of (disk w) p of Some (TextDoc t) \<Rightarrow> t | _ \<Rightarrow> [])
         in (Inr (), w\<lparr>disk := store p (TextDoc (old @ txt)) (disk w)\<rparr>)))"

definition stream_read :: "fobj \<Rightarrow> world \<Rightarrow> error + string" where
  "stream_read f w =
     (if \<not> has_read f then Inl (AttributeError ''read'')
      else if \<not> (fd f < length (handles w) \<and> is_open (handles w ! fd f)) then Inl ValueError
      else if \<not> readable (handles w ! fd f) then Inl (IOError ''not readable'')
      else (case map_of (disk w) (target (handles w ! fd f)) of
              Some (TextDoc t) \<Rightarrow> Inr t
            | Some (H5Doc d) \<Rightarrow> Inl ValueError
            | None \<Rightarrow> Inr []))"

text \<open>
  The libraries the facades call and whose text formats are theirs: the JSON encoder and
  decoder, and the \<^verbatim>\<open>ConfigDict\<close> of the \<^verbatim>\<open>configdict\<close> module, which is not among the
  sources (writing a dict tree out as text, reading the file of a name). They are
  parameters, together with the flag \<^verbatim>\<open>h5py_missing\<close> set when the module is loaded.
\<close>

record libs =
  h5py_missing :: bool
  json_dump :: "pyval \<Rightarrow> nat option \<Rightarrow> error + string"
  json_load :: "string \<Rightarrow> error + pyval"
  configdict_write :: "pyval \<Rightarrow> error + string"
  configdict_read :: "content option \<Rightarrow> error + pyval"

text \<open>
  \<^verbatim>\<open>dicttojson\<close> and \<^verbatim>\<open>dicttoini\<close>: a destination without a \<^verbatim>\<open>write\<close> attribute is
  opened as a filename and closed again after the write. Both are \<open>write_text\<close> with the
  text their library produces.
\<close>

fun hasattr_write :: "ffile \<Rightarrow> bool" where
  "hasattr_write (Stream f) = has_write f"
| "hasattr_write _ = False"

fun hasattr_read :: "ffile \<Rightarrow> bool" where
  "hasattr_read (Stream f) = has_read f"
| "hasattr_read _ = False"

definition write_text :: "(error + string) \<Rightarrow> ffile \<Rightarrow> string \<Rightarrow> world \<Rightarrow> (error + unit) \<times> world" where
  "write_text encoded file mode w =
     (case (case file of
              Stream f \<Rightarrow> if has_write f then (Inr f, w) else py_open file mode w
            | _ \<Rightarrow> py_open file mode w) of
        (Inl e, w1) \<Rightarrow> (Inl e, w1)
      | (Inr f, w1) \<Rightarrow>
          (case (case encoded of Inl e \<Rightarrow> (Inl e, w1) | Inr txt \<Rightarrow> stream_write f txt w1) of
             (Inl e, w2) \<Rightarrow> (Inl e, w2)
           | (Inr u, w2) \<Rightarrow>
               if \<not> hasattr_write file then (Inr (), close_handle (fd f) w2)
               else (Inr (), w2)))"

definition dicttojson :: "libs \<Rightarrow> pyval \<Rightarrow> ffile \<Rightarrow> nat option \<Rightarrow> string \<Rightarrow> world \<Rightarrow>
    (error + unit) \<times> world" where
  "dicttojson L ddict jsonfile indent mode w = write_text (json_dump L ddict indent) jsonfile mode w"

definition dicttoini :: "libs \<Rightarrow> pyval \<Rightarrow> ffile \<Rightarrow> string \<Rightarrow> world \<Rightarrow> (error + unit) \<times> world" where
  "dicttoini L ddict inifile mode w = write_text (configdict_write L ddict) inifile mode w"

section \<open>The format-dispatching facades\<close>

text \<open>
  \<^verbatim>\<open>os.path.splitext\<close>: the extension starts at the last dot of the last path component,
  unless only dots come before it in that component.
\<close>

definition splitext :: "string \<Rightarrow> string \<times> string" where
  "splitext p =
     (let base = rev (takeWhile (\<lambda>c. c \<noteq> CHR ''/'') (rev p));
          ext = rev (takeWhile (\<lambda>c. c \<noteq> CHR ''.'') (rev base));
          stem = take (length base - length ext - 1) base
      in if CHR ''.'' \<in> set base \<and> \<not> list_all (\<lambda>c. c = CHR ''.'') stem
         then (take (length p - length ext - 1) p, CHR ''.'' # ext)
         else (p, []))"

text \<open>
  \<^verbatim>\<open>getattr(ffile, 'name', ffile)\<close> followed by \<^verbatim>\<open>os.path.splitext(filename)[1][1:]\<close>: a
  filename is taken as it is, a stream gives its name, an open container file gives the
  name of its root group, and an object with no name is no path.
\<close>

fun dump_extension :: "ffile \<Rightarrow> error + string" where
  "dump_extension (Path p) = Inr (drop 1 (snd (splitext p)))"
| "dump_extension (Stream f) =
     (case name_attr f of None \<Rightarrow> Inl TypeError | Some n \<Rightarrow> Inr (drop 1 (snd (splitext n))))"
| "dump_extension (H5File h) = Inr (drop 1 (snd (splitext ''/'')))"

definition log_error :: "string \<Rightarrow> world \<Rightarrow> world" where
  "log_error msg w = w\<lparr>logged := logged w @ [msg]\<rparr>"

definition dump :: "libs \<Rightarrow> treedict \<Rightarrow> ffile \<Rightarrow> string \<Rightarrow> string option \<Rightarrow> world \<Rightarrow>
    (error + unit) \<times> world" where
  "dump L ddict ffile mode fmat w =
     (case (case fmat of None \<Rightarrow> dump_extension ffile | Some f \<Rightarrow> Inr f) of
        Inl e \<Rightarrow> (Inl e, w)
      | Inr fmat0 \<Rightarrow>
          (let fmat1 = lower fmat0 in
           if fmat1 = ''json'' then dicttojson L (PyDict ddict) ffile (Some 2) mode w
           else if fmat1 \<in> set [''hdf5'', ''h5''] then
             (if h5py_missing L
              then (Inl ImportError,
                    log_error ''Cannot dump to HDF5 format, missing h5py library'' w)
              else save_checkpoint (h5py_missing L) ddict ffile ''/'' mode False None w)
           else if fmat1 \<in> set [''ini'', ''cfg''] then dicttoini L (PyDict ddict) ffile mode w
           else (Inl (IOError (''Unknown format '' @ fmat1)), w)))"

text \<open>
  \<^verbatim>\<open>load\<close>: the source is resolved first (a filename is opened for reading, a stream
  gives its \<^verbatim>\<open>name\<close>), then the format, then the dispatch.
\<close>

definition load :: "libs \<Rightarrow> ffile \<Rightarrow> string option \<Rightarrow> world \<Rightarrow> (error + pyval) \<times> world" where
  "load L ffile fmat w =
     (case (if \<not> hasattr_read ffile
            then (case py_open ffile ''r'' w of
                    (Inl e, w1) \<Rightarrow> (Inl e, w1)
                  | (Inr f, w1) \<Rightarrow>
                      (case ffile of Path p \<Rightarrow> (Inr (f, p), w1) | _ \<Rightarrow> (Inl TypeError, w1)))
            else (case ffile of
                    Stream f \<Rightarrow>
                      (case name_attr f of
                         None \<Rightarrow> (Inl (AttributeError ''name''), w)
                       | Some n \<Rightarrow> (Inr (f, n), w))
                  | _ \<Rightarrow> (Inl TypeError, w))) of
        (Inl e, w1) \<Rightarrow> (Inl e, w1)
      | (Inr (f, fname), w1) \<Rightarrow>
          (let fmat1 = lower (case fmat of None \<Rightarrow> drop 1 (snd (splitext fname)) | Some x \<Rightarrow> x) in
           if fmat1 = ''json'' then
             (case stream_read f w1 of
                Inl e \<Rightarrow> (Inl e, w1)
              | Inr txt \<Rightarrow> (json_load L txt, w1))
           else if fmat1 \<in> set [''hdf5'', ''h5''] then
             (if h5py_missing L
              then (Inl ImportError,
                    log_error ''Cannot load from HDF5 format, missing h5py library'' w1)
              else (case load_checkpoint (h5py_missing L) (Path fname) ''/'' None w1 of
                      (Inl e, w2) \<Rightarrow> (Inl e, w2)
                    | (Inr d, w2) \<Rightarrow> (Inr (PyDict d), w2)))
           else if fmat1 \<in> set [''ini'', ''cfg''] then
             (configdict_read L (map_of (disk w1) fname), w1)
           else (Inl (IOError (''Unknown format '' @ fmat1)), w1)))"

section \<open>Predicates and concrete inputs for the properties\<close>





text \<open>
  The container in a file of a name, behind a handle, and behind the destination of a
  write.
\<close>

definition doc_at :: "string \<Rightarrow> world \<Rightarrow> h5node option" where
  "doc_at p w = (case map_of (disk w) p of Some (H5Doc root) \<Rightarrow> Some root | _ \<Rightarrow> None)"

definition behind :: "nat \<Rightarrow> world \<Rightarrow> h5node option" where
  "behind h w = (if h < length (handles w) then doc_at (target (handles w ! h)) w else None)"






text \<open>
  A machine with no files and no open handles, one with a single file, and a set of
  libraries without the container backend whose text encoders and decoders refuse
  everything (no property below depends on what they return).
\<close>

definition empty_world :: world where
  "empty_world = \<lparr>disk = [], handles = [], logged = []\<rparr>"

definition world_with_file :: world where
  "world_with_file = \<lparr>disk = [(''ckpt.h5'', TextDoc [])], handles = [], logged = []\<rparr>"

definition libs_without_h5py :: libs where
  "libs_without_h5py =
     \<lparr>h5py_missing = True,
      json_dump = (\<lambda>d indent. Inl TypeError),
      json_load = (\<lambda>txt. Inl ValueError),
      configdict_write = (\<lambda>d. Inl TypeError),
      configdict_read = (\<lambda>c. Inl ValueError)\<rparr>"

definition nameless_stream :: fobj where
  "nameless_stream =
     \<lparr>has_read = True, has_write = False, name_attr = None, binary = False, fd = 0\<rparr>"

definition named_stream :: fobj where
  "named_stream =
     \<lparr>has_read = True, has_write = True, name_attr = Some ''run.H5'', binary = False, fd = 0\<rparr>"



section \<open>Auxiliary facts\<close>

lemma store_store: "store p c (store p c' fs) = store p c fs"
  by (induction fs) auto

lemma map_of_store: "map_of (store p c fs) p = Some c"
  by (induction fs) auto



















lemma behind_closed: "behind h (close_handle h' w) = behind h w"
  by (auto simp: behind_def close_handle_def doc_at_def nth_list_update)
















section \<open>The encoder of the checkpoint module\<close>

text \<open>
  C2. The claim has \<^verbatim>\<open>_prepare_hdf5_dataset\<close> of \<^verbatim>\<open>checkpoint.py\<close> fail only where the
  array constructor fails. The code calls \<^verbatim>\<open>.cpu()\<close> on every value that is not an
  \<^verbatim>\<open>int\<close>: a plain string (already turned into a byte-string scalar), a float, a list
  and an array all fail there with an attribute error, before the array constructor is
  reached.
\<close>

theorem prepare_hdf5_dataset_attribute_error:
  "prepare_hdf5_dataset (PyStr ''abc'') = Inl (AttributeError ''cpu'')
   \<and> prepare_hdf5_dataset (PyFloat x) = Inl (AttributeError ''cpu'')
   \<and> prepare_hdf5_dataset (PyList xs) = Inl (AttributeError ''cpu'')
   \<and> prepare_hdf5_dataset (NdArray a) = Inl (AttributeError ''cpu'')"
  by (simp add: prepare_hdf5_dataset_def np_string_def is_ascii_def)

section \<open>Writing and reading back\<close>

text \<open>
  C1. The claim has every tree of numeric scalars, strings and numeric arrays survive
  \<^verbatim>\<open>save_checkpoint\<close> followed by \<^verbatim>\<open>load_checkpoint\<close>. A tree with one float leaf, and a
  tree with one string leaf, are not written at all: \<^verbatim>\<open>save_checkpoint\<close> raises the
  attribute error of the encoder, leaving an empty container and its handle open.
\<close>

theorem save_checkpoint_float_leaf_fails:
  "save_checkpoint False [(''lr'', PyFloat x)] (Path ''ckpt.h5'') ''/'' ''w'' False None empty_world
     = (Inl (AttributeError ''cpu''),
        \<lparr>disk = [(''ckpt.h5'', H5Doc (Group []))],
         handles = [\<lparr>target = ''ckpt.h5'', is_open = True, readable = True, writable = True\<rparr>],
         logged = []\<rparr>)
   \<and> save_checkpoint False [(''name'', PyStr ''abc'')] (Path ''ckpt.h5'') ''/'' ''w'' False None
       empty_world
     = (Inl (AttributeError ''cpu''),
        \<lparr>disk = [(''ckpt.h5'', H5Doc (Group []))],
         handles = [\<lparr>target = ''ckpt.h5'', is_open = True, readable = True, writable = True\<rparr>],
         logged = []\<rparr>)"
  by (simp add: empty_world_def save_checkpoint_def h5py_File_def h5py_open_def new_handle_def
      endswith_def prepare_hdf5_dataset_def np_string_def is_ascii_def)

section \<open>The two writers side by side\<close>

text \<open>
  C3. The claim has \<^verbatim>\<open>dicttoh5\<close> and \<^verbatim>\<open>save_checkpoint\<close> write the same container for
  every tree of numeric leaves. On a float leaf \<^verbatim>\<open>dicttoh5\<close> stores a floating dataset and
  \<^verbatim>\<open>save_checkpoint\<close> raises; on the integer \<open>2 ^ 63\<close> both succeed, and \<^verbatim>\<open>dicttoh5\<close>
  stores the byte string of its digits (its test on the lower-cased kind takes the unsigned
  kind \<open>u\<close> for a string kind) where \<^verbatim>\<open>save_checkpoint\<close> stores an unsigned integer.
\<close>

theorem writers_differ_on_numeric_leaves:
  "dicttoh5 False [(''lr'', PyFloat x)] (Path ''ckpt.h5'') ''/'' ''w'' False None empty_world
     = (Inr (),
        \<lparr>disk = [(''ckpt.h5'', H5Doc (Group
             [(''lr'', Dataset \<lparr>kind = CHR ''f'', shape = [], items = [SFloat x]\<rparr> None)]))],
         handles = [\<lparr>target = ''ckpt.h5'', is_open = False, readable = True, writable = True\<rparr>],
         logged = []\<rparr>)
   \<and> fst (save_checkpoint False [(''lr'', PyFloat x)] (Path ''ckpt.h5'') ''/'' ''w'' False None
         empty_world)
     = Inl (AttributeError ''cpu'')
   \<and> map_of (disk (snd (dicttoh5 False [(''n'', PyInt (2 ^ 63))] (Path ''ckpt.h5'') ''/'' ''w''
         False None empty_world))) ''ckpt.h5''
     = Some (H5Doc (Group
         [(''n'', Dataset \<lparr>kind = CHR ''S'', shape = [],
                          items = [SBytes ''9223372036854775808'']\<rparr> None)]))
   \<and> map_of (disk (snd (save_checkpoint False [(''n'', PyInt (2 ^ 63))] (Path ''ckpt.h5'') ''/''
         ''w'' False None empty_world))) ''ckpt.h5''
     = Some (H5Doc (Group
         [(''n'', Dataset \<lparr>kind = CHR ''u'', shape = [], items = [SInt (2 ^ 63)]\<rparr> None)]))"
  by (simp add: empty_world_def dicttoh5_def save_checkpoint_def h5py_File_def h5py_open_def
      new_handle_def endswith_def legacy_prepare_hdf5_dataset_def prepare_hdf5_dataset_def
      int_kind_def asarray_string_def astype_def dec_int_def dec_nat.simps lower_def
      create_dataset_def h5_update_def h5_root_def split_path_def close_handle_def)

section \<open>The handle opened by load\<close>

text \<open>
  C9. The claim has \<^verbatim>\<open>load\<close> close the file it opened from a filename on every exit
  path. \<^verbatim>\<open>load\<close> has no \<^verbatim>\<open>close\<close> at all: for an existing file \<^verbatim>\<open>d.json\<close>, whatever the
  format argument and whatever the libraries return, the handle \<^verbatim>\<open>load\<close> opened (the
  first of the machine) is still open when \<^verbatim>\<open>load\<close> is over; with the format inferred the
  JSON decoder's result is returned and the handle is open.
\<close>

theorem load_leaves_its_handle_open:
  "is_open (handles (snd (load L (Path ''d.json'') fmat
      \<lparr>disk = [(''d.json'', TextDoc ''{}'')], handles = [], logged = []\<rparr>)) ! 0)
   \<and> load L (Path ''d.json'') None
        \<lparr>disk = [(''d.json'', TextDoc ''{}'')], handles = [], logged = []\<rparr>
     = (json_load L ''{}'',
        \<lparr>disk = [(''d.json'', TextDoc ''{}'')],
         handles = [\<lparr>target = ''d.json'', is_open = True, readable = True, writable = False\<rparr>],
         logged = []\<rparr>)"
proof
  show "is_open (handles (snd (load L (Path ''d.json'') fmat
      \<lparr>disk = [(''d.json'', TextDoc ''{}'')], handles = [], logged = []\<rparr>)) ! 0)"
    by (simp add: load_def py_open_def text_handle_def new_handle_def log_error_def
        load_checkpoint_def h5open_def h5py_File_def h5py_open_def Let_def
        split: sum.splits prod.splits)
  show "load L (Path ''d.json'') None
        \<lparr>disk = [(''d.json'', TextDoc ''{}'')], handles = [], logged = []\<rparr>
     = (json_load L ''{}'',
        \<lparr>disk = [(''d.json'', TextDoc ''{}'')],
         handles = [\<lparr>target = ''d.json'', is_open = True, readable = True, writable = False\<rparr>],
         logged = []\<rparr>)"
    by (simp add: load_def py_open_def text_handle_def new_handle_def splitext_def lower_def
        stream_read_def)
qed

section \<open>A stream without a name\<close>

text \<open>
  C10. For every source that has a \<^verbatim>\<open>read\<close> attribute and no \<^verbatim>\<open>name\<close> attribute,
  \<^verbatim>\<open>load\<close> fails with an attribute error on \<^verbatim>\<open>name\<close>, whatever the format argument
  (given or not, known or not), and the machine is as it was: nothing is opened, read,
  logged or dispatched.
\<close>

theorem load_nameless_stream:
  "has_read f \<Longrightarrow> name_attr f = None \<Longrightarrow>
   load L (Stream f) fmat w = (Inl (AttributeError ''name''), w)"
  by (simp add: load_def)

theorem load_nameless_stream_witness:
  "has_read nameless_stream \<and> name_attr nameless_stream = None
   \<and> load libs_without_h5py (Stream nameless_stream) (Some ''json'') empty_world
       = (Inl (AttributeError ''name''), empty_world)"
proof -
  have r: "has_read nameless_stream" and n: "name_attr nameless_stream = None"
    by (simp_all add: nameless_stream_def)
  show ?thesis
    using r n load_nameless_stream [OF r n, of libs_without_h5py "Some ''json''" empty_world]
    by simp
qed

section \<open>Empty groups\<close>

text \<open>
  C7. Writing the tree \<^verbatim>\<open>{"a": {}, "b": None}\<close> to a file \<open>p\<close> (with either writer, on any
  machine) succeeds and leaves in \<open>p\<close> exactly the two empty groups \<open>a\<close> and \<open>b\<close>; reading
  the file back with \<^verbatim>\<open>load_checkpoint\<close> gives \<^verbatim>\<open>{"a": {}, "b": {}}\<close>.
\<close>

theorem empty_groups_preserved:
  "save_checkpoint False [(''a'', PyDict []), (''b'', PyNone)] (Path p) ''/'' ''w'' False None w
     = (Inr (),
        w\<lparr>disk := store p (H5Doc (Group [(''a'', Group []), (''b'', Group [])])) (disk w),
          handles := handles w
            @ [\<lparr>target = p, is_open = False, readable = True, writable = True\<rparr>]\<rparr>)
   \<and> dicttoh5 False [(''a'', PyDict []), (''b'', PyNone)] (Path p) ''/'' ''w'' False None w
     = save_checkpoint False [(''a'', PyDict []), (''b'', PyNone)] (Path p) ''/'' ''w'' False None w
   \<and> map_of (disk (snd (save_checkpoint False [(''a'', PyDict []), (''b'', PyNone)] (Path p) ''/''
         ''w'' False None w))) p
     = Some (H5Doc (Group [(''a'', Group []), (''b'', Group [])]))
   \<and> fst (load_checkpoint False (Path p) ''/'' None
         (snd (save_checkpoint False [(''a'', PyDict []), (''b'', PyNone)] (Path p) ''/'' ''w''
            False None w)))
     = Inr [(''a'', PyDict []), (''b'', PyDict [])]"
proof -
  let ?doc = "H5Doc (Group [(''a'', Group []), (''b'', Group [])])"
  let ?w' = "w\<lparr>disk := store p ?doc (disk w),
          handles := handles w
            @ [\<lparr>target = p, is_open = False, readable = True, writable = True\<rparr>]\<rparr>"
  have save: "save_checkpoint False [(''a'', PyDict []), (''b'', PyNone)] (Path p) ''/'' ''w''
      False None w = (Inr (), ?w')"
    by (simp add: save_checkpoint_def h5py_File_def h5py_open_def new_handle_def endswith_def
        create_group_def h5_update_def h5_root_def split_path_def close_handle_def
        map_of_store store_store nth_append)
  have legacy: "dicttoh5 False [(''a'', PyDict []), (''b'', PyNone)] (Path p) ''/'' ''w''
      False None w = (Inr (), ?w')"
    by (simp add: dicttoh5_def h5py_File_def h5py_open_def new_handle_def endswith_def
        create_group_def h5_update_def h5_root_def split_path_def close_handle_def
        map_of_store store_store nth_append)
  have stored: "map_of (disk ?w') p = Some ?doc"
    by (simp add: map_of_store)
  have reread: "fst (load_checkpoint False (Path p) ''/'' None ?w')
      = Inr [(''a'', PyDict []), (''b'', PyDict [])]"
    by (simp add: load_checkpoint_def h5open_def h5py_File_def h5py_open_def new_handle_def
        h5_root_def h5_getitem_def split_path_def nth_append close_handle_def map_of_store)
  show ?thesis
    using stored reread by (simp only: save legacy snd_conv simp_thms)
qed

section \<open>Dataset-creation options\<close>



section \<open>The encoder of the legacy module\<close>




section \<open>The missing backend\<close>

text \<open>
  C4, as the code has it. When the container backend is unavailable, \<^verbatim>\<open>save_checkpoint\<close>,
  \<^verbatim>\<open>load_checkpoint\<close> and \<^verbatim>\<open>dicttoh5\<close> fail with the import error and change nothing;
  \<^verbatim>\<open>dump\<close> with a format (given, or taken from the name) that is \<open>hdf5\<close> or \<open>h5\<close> once
  lower-cased logs one error record and fails with the import error; \<^verbatim>\<open>load\<close> with such a
  format does the same once its source is resolved (the filename opened for reading, or the
  readable stream's name read). \<^verbatim>\<open>load\<close> on a filename that does not exist fails in
  \<^verbatim>\<open>open\<close> with that error instead, and logs nothing.
\<close>

theorem missing_backend_import_error:
  assumes "h5py_missing L"
  shows "save_checkpoint (h5py_missing L) d f path mode ov args w = (Inl ImportError, w)
    \<and> load_checkpoint (h5py_missing L) f path ex w = (Inl ImportError, w)
    \<and> dicttoh5 (h5py_missing L) d f path mode ov args w = (Inl ImportError, w)
    \<and> (lower fmt \<in> set [''hdf5'', ''h5''] \<longrightarrow>
         dump L d f mode (Some fmt) w
           = (Inl ImportError, log_error ''Cannot dump to HDF5 format, missing h5py library'' w))
    \<and> (dump_extension f = Inr e \<and> lower e \<in> set [''hdf5'', ''h5''] \<longrightarrow>
         dump L d f mode None w
           = (Inl ImportError, log_error ''Cannot dump to HDF5 format, missing h5py library'' w))
    \<and> (map_of (disk w) p \<noteq> None
         \<and> lower (case fmat of None \<Rightarrow> drop 1 (snd (splitext p)) | Some x \<Rightarrow> x)
             \<in> set [''hdf5'', ''h5''] \<longrightarrow>
         load L (Path p) fmat w
           = (Inl ImportError,
              log_error ''Cannot load from HDF5 format, missing h5py library''
                (snd (py_open (Path p) ''r'' w))))
    \<and> (has_read s \<and> name_attr s = Some n
         \<and> lower (case fmat of None \<Rightarrow> drop 1 (snd (splitext n)) | Some x \<Rightarrow> x)
             \<in> set [''hdf5'', ''h5''] \<longrightarrow>
         load L (Stream s) fmat w
           = (Inl ImportError, log_error ''Cannot load from HDF5 format, missing h5py library'' w))
    \<and> (map_of (disk w) q = None \<longrightarrow> load L (Path q) fmat w = (Inl (FileNotFoundError q), w))"
  using assms
  by (auto simp: save_checkpoint_def dicttoh5_def load_checkpoint_def dump_def load_def Let_def
      py_open_def text_handle_def new_handle_def)

theorem missing_backend_import_error_witness:
  "h5py_missing libs_without_h5py
   \<and> save_checkpoint True [] (Path ''ckpt.h5'') ''/'' ''w'' False None world_with_file
       = (Inl ImportError, world_with_file)
   \<and> load_checkpoint True (Path ''ckpt.h5'') ''/'' None world_with_file
       = (Inl ImportError, world_with_file)
   \<and> dicttoh5 True [] (Path ''ckpt.h5'') ''/'' ''w'' False None world_with_file
       = (Inl ImportError, world_with_file)
   \<and> dump libs_without_h5py [] (Path ''ckpt.h5'') ''w'' (Some ''HDF5'') world_with_file
       = (Inl ImportError,
          world_with_file\<lparr>logged := [''Cannot dump to HDF5 format, missing h5py library'']\<rparr>)
   \<and> dump libs_without_h5py [] (Path ''ckpt.h5'') ''w'' None world_with_file
       = (Inl ImportError,
          world_with_file\<lparr>logged := [''Cannot dump to HDF5 format, missing h5py library'']\<rparr>)
   \<and> load libs_without_h5py (Path ''ckpt.h5'') None world_with_file
       = (Inl ImportError,
          world_with_file
            \<lparr>handles := [\<lparr>target = ''ckpt.h5'', is_open = True, readable = True,
                           writable = False\<rparr>],
             logged := [''Cannot load from HDF5 format, missing h5py library'']\<rparr>)
   \<and> load libs_without_h5py (Stream named_stream) None world_with_file
       = (Inl ImportError,
          world_with_file\<lparr>logged := [''Cannot load from HDF5 format, missing h5py library'']\<rparr>)
   \<and> load libs_without_h5py (Path ''gone.h5'') None world_with_file
       = (Inl (FileNotFoundError ''gone.h5''), world_with_file)"
proof -
  have m: "h5py_missing libs_without_h5py"
    by (simp add: libs_without_h5py_def)
  show ?thesis
    using m missing_backend_import_error [OF m, where d = "[]" and f = "Path ''ckpt.h5''"
        and path = "''/''" and mode = "''w''" and ov = False and args = None
        and w = world_with_file and ex = None and fmt = "''HDF5''" and e = "''h5''"
        and p = "''ckpt.h5''" and fmat = None and s = named_stream and n = "''run.H5''"
        and q = "''gone.h5''"]
    by (simp add: world_with_file_def named_stream_def splitext_def lower_def
        py_open_def text_handle_def new_handle_def log_error_def)
qed

text \<open>
  C4 as stated fails for \<^verbatim>\<open>load\<close>: with the backend unavailable and no file
  \<^verbatim>\<open>ckpt.h5\<close>, \<^verbatim>\<open>load("ckpt.h5", fmat="hdf5")\<close> fails in \<^verbatim>\<open>open\<close>, not with the import
  error, and nothing is logged.
\<close>

theorem load_missing_file_counterexample:
  "h5py_missing libs_without_h5py
   \<and> load libs_without_h5py (Path ''ckpt.h5'') (Some ''hdf5'') empty_world
       = (Inl (FileNotFoundError ''ckpt.h5''), empty_world)
   \<and> fst (load libs_without_h5py (Path ''ckpt.h5'') (Some ''hdf5'') empty_world)
       \<noteq> Inl ImportError
   \<and> logged (snd (load libs_without_h5py (Path ''ckpt.h5'') (Some ''hdf5'') empty_world)) = []"
  by (simp add: libs_without_h5py_def load_def py_open_def empty_world_def)

section \<open>Unknown formats\<close>

text \<open>
  C5, as the code has it. The format is lower-cased before it is compared and before it is
  put into the message: for every format (given, or taken from the name by
  \<^verbatim>\<open>os.path.splitext\<close>) whose lower-cased form is none of \<open>json\<close>, \<open>hdf5\<close>, \<open>h5\<close>, \<open>ini\<close>,
  \<open>cfg\<close>, \<^verbatim>\<open>dump\<close> fails with the I/O error \<open>Unknown format\<close> followed by the lower-cased
  format and changes nothing, and \<^verbatim>\<open>load\<close> does the same once its source is resolved (the
  filename opened for reading, or the readable stream's name read). \<^verbatim>\<open>load\<close> on a
  filename that does not exist fails in \<^verbatim>\<open>open\<close> with that error instead.
\<close>

theorem unknown_format_io_error:
  "(lower fmt \<notin> set [''json'', ''hdf5'', ''h5'', ''ini'', ''cfg''] \<longrightarrow>
      dump L d f mode (Some fmt) w = (Inl (IOError (''Unknown format '' @ lower fmt)), w))
   \<and> (dump_extension f = Inr e \<and> lower e \<notin> set [''json'', ''hdf5'', ''h5'', ''ini'', ''cfg''] \<longrightarrow>
      dump L d f mode None w = (Inl (IOError (''Unknown format '' @ lower e)), w))
   \<and> (map_of (disk w) p \<noteq> None
       \<and> lower (case fmat of None \<Rightarrow> drop 1 (snd (splitext p)) | Some x \<Rightarrow> x)
           \<notin> set [''json'', ''hdf5'', ''h5'', ''ini'', ''cfg''] \<longrightarrow>
      load L (Path p) fmat w
        = (Inl (IOError (''Unknown format ''
               @ lower (case fmat of None \<Rightarrow> drop 1 (snd (splitext p)) | Some x \<Rightarrow> x))),
           snd (py_open (Path p) ''r'' w)))
   \<and> (has_read s \<and> name_attr s = Some n
       \<and> lower (case fmat of None \<Rightarrow> drop 1 (snd (splitext n)) | Some x \<Rightarrow> x)
           \<notin> set [''json'', ''hdf5'', ''h5'', ''ini'', ''cfg''] \<longrightarrow>
      load L (Stream s) fmat w
        = (Inl (IOError (''Unknown format ''
               @ lower (case fmat of None \<Rightarrow> drop 1 (snd (splitext n)) | Some x \<Rightarrow> x))), w))
   \<and> (map_of (disk w) q = None \<longrightarrow> load L (Path q) fmat w = (Inl (FileNotFoundError q), w))"
  by (auto simp: dump_def load_def Let_def py_open_def text_handle_def new_handle_def)

theorem unknown_format_io_error_witness:
  "dump libs_without_h5py [] (Path ''ckpt.h5'') ''w'' (Some ''XYZ'') world_with_file
     = (Inl (IOError ''Unknown format xyz''), world_with_file)
   \<and> dump libs_without_h5py [] (Path ''out.Dat'') ''w'' None world_with_file
     = (Inl (IOError ''Unknown format dat''), world_with_file)
   \<and> load libs_without_h5py (Path ''ckpt.h5'') (Some ''XYZ'') world_with_file
     = (Inl (IOError ''Unknown format xyz''),
        world_with_file
          \<lparr>handles := [\<lparr>target = ''ckpt.h5'', is_open = True, readable = True,
                         writable = False\<rparr>]\<rparr>)
   \<and> load libs_without_h5py (Stream named_stream) (Some ''XYZ'') world_with_file
     = (Inl (IOError ''Unknown format xyz''), world_with_file)
   \<and> load libs_without_h5py (Path ''gone.xyz'') (Some ''XYZ'') world_with_file
     = (Inl (FileNotFoundError ''gone.xyz''), world_with_file)"
  using unknown_format_io_error [where L = libs_without_h5py and d = "[]"
      and f = "Path ''out.Dat''" and mode = "''w''" and w = world_with_file
      and fmt = "''XYZ''" and e = "''Dat''" and p = "''ckpt.h5''" and fmat = "Some ''XYZ''"
      and s = named_stream and n = "''run.H5''" and q = "''gone.xyz''"]
    unknown_format_io_error [where L = libs_without_h5py and d = "[]"
      and f = "Path ''ckpt.h5''" and mode = "''w''" and w = world_with_file
      and fmt = "''XYZ''"]
  by (simp add: world_with_file_def named_stream_def splitext_def lower_def
      py_open_def text_handle_def new_handle_def)

text \<open>
  C5 as stated fails twice: the message carries the lower-cased format, not the format
  string given, and \<^verbatim>\<open>load\<close> of a filename that does not exist fails in \<^verbatim>\<open>open\<close> before
  any format is looked at.
\<close>

theorem unknown_format_counterexample:
  "dump libs_without_h5py [] (Path ''out.dat'') ''w'' (Some ''XYZ'') empty_world
     = (Inl (IOError ''Unknown format xyz''), empty_world)
   \<and> fst (dump libs_without_h5py [] (Path ''out.dat'') ''w'' (Some ''XYZ'') empty_world)
     \<noteq> Inl (IOError ''Unknown format XYZ'')
   \<and> load libs_without_h5py (Path ''out.xyz'') None empty_world
     = (Inl (FileNotFoundError ''out.xyz''), empty_world)"
  by (simp add: dump_def load_def lower_def py_open_def empty_world_def)

end
